theory Spec2Isabelle
  imports Main
begin

section \<open>Errors\<close>

text \<open>
  Commit.js raises plain JavaScript errors that differ in their message only:
  \<^verbatim>\<open>throw Error('Proposal has not been endorsed')\<close>,
  \<^verbatim>\<open>throw new Error('No valid endorsements found')\<close> and
  \<^verbatim>\<open>throw Error('Missing targets parameter')\<close>. Reading a property of
  \<^verbatim>\<open>null\<close> or \<^verbatim>\<open>undefined\<close> raises a TypeError. The remaining errors
  come from the collaborators of the class: the protobuf decoder, the lifecycle check
  of the base class, and the transport (committers, handler, channel).
\<close>

datatype error =
    Error string
  | TypeError
  | DecodeError
  | PreconditionError
  | TransportError string

text \<open>
  Modelled from the spec: \<^verbatim>\<open>checkParameter\<close> of Utils.js is not among the sources.
  A required argument that is absent fails with the missing-parameter error; the message
  has the shape of the one Commit.js builds itself for the targets.
\<close>

definition MissingParameterError :: "string \<Rightarrow> error" where
  "MissingParameterError name = Error (''Missing '' @ name @ '' parameter'')"

definition checkParameter :: "string \<Rightarrow> error" where
  "checkParameter name = MissingParameterError name"

definition NotEndorsedError :: error where
  "NotEndorsedError = Error ''Proposal has not been endorsed''"

definition NoValidEndorsementsError :: error where
  "NoValidEndorsementsError = Error ''No valid endorsements found''"

section \<open>The wire schema\<close>

text \<open>
  Modelled from the spec: the generated message classes of fabric-protos are not among
  the sources. Each message is the list of the fields that Commit.js sets or reads.
  Serialisation is symbolic: \<^verbatim>\<open>toBuffer\<close> of a message is a constructor of the
  type of buffers, so it is injective and distinct messages never share bytes, and
  \<^verbatim>\<open>decode\<close> inverts it and raises on a buffer that holds anything else.
\<close>

datatype 'b ChaincodeProposalPayload =
  ChaincodeProposalPayload (input: 'b) (TransientMap: "(string \<times> 'b) list")

datatype 'b Endorsement =
  Endorsement (endorser: 'b) (signature: 'b)

datatype 'b ChaincodeEndorsedAction =
  ChaincodeEndorsedAction (getProposalResponsePayload: 'b) (getEndorsements: "'b Endorsement list")

datatype 'b ChaincodeActionPayload =
  ChaincodeActionPayload (getChaincodeProposalPayload: 'b) (getAction: "'b ChaincodeEndorsedAction")

datatype 'b TransactionAction =
  TransactionAction (getActionHeader: 'b) (getActionPayload: 'b)

datatype 'b Transaction =
  Transaction (getActions: "'b TransactionAction list")

datatype 'b Header =
  Header (channel_header: 'b) (signature_header: 'b)

datatype 'b Payload =
  Payload (getHeader: "'b Header") (getData: 'b)

datatype buffer =
    Bytes "nat list"
  | ChaincodeProposalPayload_toBuffer "buffer ChaincodeProposalPayload"
  | ChaincodeActionPayload_toBuffer "buffer ChaincodeActionPayload"
  | Transaction_toBuffer "buffer Transaction"
  | Payload_toBuffer "buffer Payload"

fun ChaincodeProposalPayload_decode :: "buffer \<Rightarrow> error + buffer ChaincodeProposalPayload" where
  "ChaincodeProposalPayload_decode (ChaincodeProposalPayload_toBuffer m) = Inr m"
| "ChaincodeProposalPayload_decode _ = Inl DecodeError"

fun ChaincodeActionPayload_decode :: "buffer \<Rightarrow> error + buffer ChaincodeActionPayload" where
  "ChaincodeActionPayload_decode (ChaincodeActionPayload_toBuffer m) = Inr m"
| "ChaincodeActionPayload_decode _ = Inl DecodeError"

fun Transaction_decode :: "buffer \<Rightarrow> error + buffer Transaction" where
  "Transaction_decode (Transaction_toBuffer m) = Inr m"
| "Transaction_decode _ = Inl DecodeError"

fun Payload_decode :: "buffer \<Rightarrow> error + buffer Payload" where
  "Payload_decode (Payload_toBuffer m) = Inr m"
| "Payload_decode _ = Inl DecodeError"

definition getSignatureHeader :: "buffer Header \<Rightarrow> buffer" where
  "getSignatureHeader h = signature_header h"

section \<open>The endorsement record\<close>

text \<open>
  What \<^verbatim>\<open>build\<close> reads of an endorsement: \<^verbatim>\<open>_proposalResponses\<close>, which is
  absent until the proposal has been sent and an array afterwards, and \<^verbatim>\<open>_action\<close>
  with the proposal (its payload bytes) and the header captured when the proposal was
  built. An entry of the array may be \<^verbatim>\<open>null\<close> and may lack its \<^verbatim>\<open>response\<close>:
  the filter of \<^verbatim>\<open>build\<close> guards against both.
\<close>

record response =
  response_status :: int
  response_message :: string

record proposalResponse =
  response :: "response option"
  payload :: buffer
  endorsement :: "buffer Endorsement"

record proposalAction =
  proposal_payload :: buffer
  header :: "buffer Header"

record endorsementRecord =
  proposalResponses :: "proposalResponse option list option"
  endorsement_action :: proposalAction

section \<open>The commit action\<close>

text \<open>
  The state of a Commit object: the chaincode name, the endorsement it consumes, and the
  state of the base class: the payload message kept in \<^verbatim>\<open>_action.payload\<close>, the
  payload bytes \<^verbatim>\<open>_payload\<close> and the signature set by \<^verbatim>\<open>sign\<close>.
\<close>

record commit =
  chaincodeName :: string
  c_endorsement :: "endorsementRecord option"
  c_action_payload :: "buffer Payload option"
  c_payload :: "buffer option"
  c_signature :: "buffer option"

record identityContext =
  idname :: string

record buildRequest =
  req_endorsement :: "endorsementRecord option"

text \<open>
  Modelled from the spec: \<^verbatim>\<open>_reset\<close> belongs to the base class, which is not among
  the sources. It clears the accumulated payload and the signed envelope, so that the
  action is back in its unbuilt state.
\<close>

definition reset :: "commit \<Rightarrow> commit" where
  "reset c = c\<lparr>c_action_payload := None, c_payload := None, c_signature := None\<rparr>"

definition unbuilt :: "commit \<Rightarrow> bool" where
  "unbuilt c \<longleftrightarrow> c_action_payload c = None \<and> c_payload c = None \<and> c_signature c = None"

text \<open>
  The guard of the filter loop (Commit.js, line 74):
  \<^verbatim>\<open>proposalResponse && proposalResponse.response && proposalResponse.response.status === 200\<close>.
\<close>

fun is_valid_endorsement :: "proposalResponse option \<Rightarrow> bool" where
  "is_valid_endorsement None = False"
| "is_valid_endorsement (Some pr) =
     (case response pr of None \<Rightarrow> False | Some r \<Rightarrow> response_status r = 200)"

text \<open>
  The loop of lines 73 to 77, which pushes the endorsement of every response passing the
  guard.
\<close>

fun collect_endorsements :: "proposalResponse option list \<Rightarrow> buffer Endorsement list" where
  "collect_endorsements [] = []"
| "collect_endorsements (None # rs) = collect_endorsements rs"
| "collect_endorsements (Some pr # rs) =
     (if is_valid_endorsement (Some pr) then endorsement pr # collect_endorsements rs
      else collect_endorsements rs)"

text \<open>
  The straight-line part of \<^verbatim>\<open>build\<close>, lines 85 to 114: the payload of entry 0 of
  the responses, the endorsements, the proposal payload encoded again with its input only
  (a new message has an empty transient map), and the nesting of the messages.
\<close>

definition assemble ::
  "proposalResponse \<Rightarrow> buffer Endorsement list \<Rightarrow> buffer ChaincodeProposalPayload \<Rightarrow>
   buffer Header \<Rightarrow> buffer Payload" where
  "assemble proposalResponse endorsements originalChaincodeProposalPayload hdr =
     (let chaincodeEndorsedAction = ChaincodeEndorsedAction (payload proposalResponse) endorsements;
          chaincodeProposalPayloadNoTrans =
            ChaincodeProposalPayload (input originalChaincodeProposalPayload) [];
          chaincodeActionPayload =
            ChaincodeActionPayload
              (ChaincodeProposalPayload_toBuffer chaincodeProposalPayloadNoTrans)
              chaincodeEndorsedAction;
          transactionAction =
            TransactionAction (getSignatureHeader hdr)
              (ChaincodeActionPayload_toBuffer chaincodeActionPayload);
          transaction = Transaction [transactionAction]
      in Payload hdr (Transaction_toBuffer transaction))"

text \<open>
  \<^verbatim>\<open>build(idContext, request)\<close>, lines 55 to 118: the result, or the error raised, and
  the state of the object afterwards. An absent \<^verbatim>\<open>idContext\<close> raises before the body
  runs; the endorsement of the request is stored before any check; \<^verbatim>\<open>_reset\<close> runs
  after the two checks of the endorsement and before the filter. Entry 0 of the responses
  is read without a guard, so an entry that is no object raises a TypeError there.
\<close>

definition build ::
  "commit \<Rightarrow> identityContext option \<Rightarrow> buildRequest \<Rightarrow> (error + buffer) \<times> commit" where
  "build this idContext request =
     (case idContext of
        None \<Rightarrow> (Inl (checkParameter ''idContext''), this)
      | Some _ \<Rightarrow>
          (let this1 = (case req_endorsement request of
                          Some e \<Rightarrow> this\<lparr>c_endorsement := Some e\<rparr>
                        | None \<Rightarrow> this)
           in (case c_endorsement this1 of
               None \<Rightarrow> (Inl (checkParameter ''endorsement''), this1)
             | Some e \<Rightarrow>
                 (case proposalResponses e of
                    None \<Rightarrow> (Inl NotEndorsedError, this1)
                  | Some rs \<Rightarrow>
                      let this2 = reset this1;
                          endorsements = collect_endorsements rs
                      in if length endorsements < 1 then (Inl NoValidEndorsementsError, this2)
                         else (case rs of
                                 [] \<Rightarrow> (Inl TypeError, this2)
                               | None # _ \<Rightarrow> (Inl TypeError, this2)
                               | Some proposalResponse # _ \<Rightarrow>
                                   (case ChaincodeProposalPayload_decode
                                           (proposal_payload (endorsement_action e)) of
                                      Inl err \<Rightarrow> (Inl err, this2)
                                    | Inr original \<Rightarrow>
                                        let p = assemble proposalResponse endorsements original
                                                  (header (endorsement_action e));
                                            bytes = Payload_toBuffer p
                                        in (Inr bytes,
                                            this2\<lparr>c_action_payload := Some p,
                                                  c_payload := Some bytes\<rparr>)))))))"

text \<open>
  The endorsement that \<^verbatim>\<open>build\<close> works on: the one of the request when it has one,
  else the one the object was constructed with.
\<close>

definition resolved_endorsement :: "commit \<Rightarrow> buildRequest \<Rightarrow> endorsementRecord option" where
  "resolved_endorsement this request =
     (case req_endorsement request of Some e \<Rightarrow> Some e | None \<Rightarrow> c_endorsement this)"

section \<open>Sending\<close>

text \<open>
  The outcome of a broadcast is an object with a \<^verbatim>\<open>status\<close> string and whatever
  else the committer reports; the initial \<^verbatim>\<open>bad_result\<close> has the status only.
\<close>

record outcome =
  status :: string
  info :: "string option"

record envelope =
  env_signature :: buffer
  env_payload :: buffer

record ('h, 't) sendRequest =
  handler :: "'h option"
  targets :: "'t list option"
  requestTimeout :: "nat option"

text \<open>
  The collaborators of \<^verbatim>\<open>send\<close>, none of them among the sources, are parameters:
  the channel resolving targets to committers, the broadcast of a committer and the
  commit of a handler. Each returns a value or raises; the answer of a committer depends
  on the committer, the envelope and the timeout. What \<^verbatim>\<open>send\<close> asks of them is
  recorded as a list of events, in the order of the calls.
\<close>

record ('h, 't, 'c) transport =
  getTargetCommitters :: "'t list \<Rightarrow> error + 'c list"
  sendBroadcast :: "'c \<Rightarrow> envelope \<Rightarrow> nat option \<Rightarrow> error + outcome"
  handler_commit :: "'h \<Rightarrow> envelope \<Rightarrow> ('h, 't) sendRequest \<Rightarrow> error + outcome"

datatype ('h, 't, 'c) event =
    HandlerCommit 'h
  | TargetCommitters "'t list"
  | SendBroadcast 'c

text \<open>
  Modelled from the spec: \<^verbatim>\<open>getSignedEnvelope\<close> belongs to the base class, which is
  not among the sources. Sending requires a signed envelope, present only after the
  payload has been built and signed, and fails with the precondition error otherwise.
\<close>

definition getSignedEnvelope :: "commit \<Rightarrow> error + envelope" where
  "getSignedEnvelope this =
     (case c_payload this of
        None \<Rightarrow> Inl PreconditionError
      | Some p \<Rightarrow>
          (case c_signature this of
             None \<Rightarrow> Inl PreconditionError
           | Some s \<Rightarrow> Inr \<lparr>env_signature = s, env_payload = p\<rparr>))"

text \<open>
  The loop of lines 164 to 172 over the committers, with the current \<^verbatim>\<open>bad_result\<close>.
  It returns the result of \<^verbatim>\<open>send\<close> together with the committers it has called, in
  the order of the calls. Nothing catches what \<^verbatim>\<open>sendBroadcast\<close> raises.
\<close>

fun broadcast ::
  "('c \<Rightarrow> envelope \<Rightarrow> nat option \<Rightarrow> error + outcome) \<Rightarrow> envelope \<Rightarrow> nat option \<Rightarrow>
   'c list \<Rightarrow> outcome \<Rightarrow> (error + outcome) \<times> 'c list" where
  "broadcast sb env t [] bad_result = (Inr bad_result, [])"
| "broadcast sb env t (committer # committers) bad_result =
     (case sb committer env t of
        Inl err \<Rightarrow> (Inl err, [committer])
      | Inr result \<Rightarrow>
          if status result = ''SUCCESS'' then (Inr result, [committer])
          else (case broadcast sb env t committers result of
                  (res, called) \<Rightarrow> (res, committer # called)))"

text \<open>The \<^verbatim>\<open>bad_result\<close> of lines 162 and 163, before any committer has answered.\<close>

definition initial_bad_result :: outcome where
  "initial_bad_result = \<lparr>status = ''UNKNOWN'', info = None\<rparr>"

text \<open>
  \<^verbatim>\<open>send(request)\<close>, lines 146 to 178: the result, or the error raised, and the calls
  made. The signed envelope is fetched before the request is looked at; a handler, when
  there is one, gets the envelope and the whole request and its answer is returned as it
  is; else the targets, when there are any (an empty array counts), are resolved and
  tried in turn; with neither, the call fails.
\<close>

definition send ::
  "('h, 't, 'c) transport \<Rightarrow> commit \<Rightarrow> ('h, 't) sendRequest \<Rightarrow>
   (error + outcome) \<times> ('h, 't, 'c) event list" where
  "send tr this request =
     (case getSignedEnvelope this of
        Inl err \<Rightarrow> (Inl err, [])
      | Inr envelope \<Rightarrow>
          (case handler request of
             Some h \<Rightarrow> (handler_commit tr h envelope request, [HandlerCommit h])
           | None \<Rightarrow>
               (case targets request of
                  Some ts \<Rightarrow>
                    (case getTargetCommitters tr ts of
                       Inl err \<Rightarrow> (Inl err, [TargetCommitters ts])
                     | Inr committers \<Rightarrow>
                         (case broadcast (sendBroadcast tr) envelope (requestTimeout request)
                                 committers initial_bad_result of
                            (res, called) \<Rightarrow>
                              (res, TargetCommitters ts # map SendBroadcast called)))
                | None \<Rightarrow> (Inl (Error ''Missing targets parameter''), []))))"

section \<open>Reading a built payload\<close>

text \<open>
  The chaincode action payload inside the bytes that \<^verbatim>\<open>build\<close> returns: decode the
  payload, decode its data as a transaction, take the action of a transaction that has
  exactly one, decode the payload of that action.
\<close>

definition embedded_action_payload :: "buffer \<Rightarrow> error + buffer ChaincodeActionPayload" where
  "embedded_action_payload bytes =
     (case Payload_decode bytes of
        Inl err \<Rightarrow> Inl err
      | Inr p \<Rightarrow>
          (case Transaction_decode (getData p) of
             Inl err \<Rightarrow> Inl err
           | Inr tx \<Rightarrow>
               (case getActions tx of
                  [ta] \<Rightarrow> ChaincodeActionPayload_decode (getActionPayload ta)
                | _ \<Rightarrow> Inl DecodeError)))"

section \<open>Sample data\<close>

definition sample_header :: "buffer Header" where
  "sample_header = Header (Bytes [1, 2]) (Bytes [3, 4])"

definition sample_proposal_payload :: buffer where
  "sample_proposal_payload =
     ChaincodeProposalPayload_toBuffer
       (ChaincodeProposalPayload (Bytes [5, 6, 7]) [(''secret'', Bytes [8, 9])])"

definition sample_action :: proposalAction where
  "sample_action = \<lparr>proposal_payload = sample_proposal_payload, header = sample_header\<rparr>"

definition response_with :: "int \<Rightarrow> nat \<Rightarrow> proposalResponse" where
  "response_with st n =
     \<lparr>response = Some \<lparr>response_status = st, response_message = []\<rparr>,
      payload = Bytes [n],
      endorsement = Endorsement (Bytes [n, 0]) (Bytes [n, 1])\<rparr>"

definition sample_endorsement :: "proposalResponse option list option \<Rightarrow> endorsementRecord" where
  "sample_endorsement rs = \<lparr>proposalResponses = rs, endorsement_action = sample_action\<rparr>"

definition fresh_commit :: commit where
  "fresh_commit =
     \<lparr>chaincodeName = ''mycc'', c_endorsement = None, c_action_payload = None,
      c_payload = None, c_signature = None\<rparr>"

definition signed_commit :: commit where
  "signed_commit =
     \<lparr>chaincodeName = ''mycc'', c_endorsement = None,
      c_action_payload = Some (Payload sample_header (Bytes [10])),
      c_payload = Some (Payload_toBuffer (Payload sample_header (Bytes [10]))),
      c_signature = Some (Bytes [11, 12])\<rparr>"

definition sample_envelope :: envelope where
  "sample_envelope =
     \<lparr>env_signature = Bytes [11, 12],
      env_payload = Payload_toBuffer (Payload sample_header (Bytes [10]))\<rparr>"

definition sample_identity :: identityContext where
  "sample_identity = \<lparr>idname = ''admin''\<rparr>"

text \<open>
  A sample network: every target name resolves to a committer of that name; the
  committer \<^verbatim>\<open>up\<close> accepts, \<^verbatim>\<open>down\<close> raises a transport error,
  \<^verbatim>\<open>unknown\<close> reports the status UNKNOWN, and every other committer reports
  FAILED with its own name as the message.
\<close>

definition sample_sendBroadcast :: "string \<Rightarrow> envelope \<Rightarrow> nat option \<Rightarrow> error + outcome" where
  "sample_sendBroadcast c env t =
     (if c = ''up'' then Inr \<lparr>status = ''SUCCESS'', info = Some []\<rparr>
      else if c = ''down'' then Inl (TransportError ''REQUEST TIMEOUT'')
      else if c = ''unknown'' then Inr \<lparr>status = ''UNKNOWN'', info = Some ''no status''\<rparr>
      else Inr \<lparr>status = ''FAILED'', info = Some c\<rparr>)"

definition sample_transport :: "(unit, string, string) transport" where
  "sample_transport =
     \<lparr>getTargetCommitters = (\<lambda>ts. Inr ts),
      sendBroadcast = sample_sendBroadcast,
      handler_commit = (\<lambda>h env req. Inr \<lparr>status = ''SUCCESS'', info = None\<rparr>)\<rparr>"

definition targets_request :: "string list \<Rightarrow> (unit, string) sendRequest" where
  "targets_request ts = \<lparr>handler = None, targets = Some ts, requestTimeout = Some 3000\<rparr>"

definition sample_request :: "proposalResponse option list option \<Rightarrow> buildRequest" where
  "sample_request rs = \<lparr>req_endorsement = Some (sample_endorsement rs)\<rparr>"

section \<open>Facts about the filter and the decoder\<close>

lemma collect_endorsements_filter:
  "collect_endorsements rs = map (endorsement \<circ> the) (filter is_valid_endorsement rs)"
  by (induction rs rule: collect_endorsements.induct) simp_all

lemma collect_endorsements_Nil_iff:
  "collect_endorsements rs = [] \<longleftrightarrow> (\<forall>r\<in>set rs. \<not> is_valid_endorsement r)"
  by (simp add: collect_endorsements_filter filter_empty_conv)

lemma decode_error: "ChaincodeProposalPayload_decode b = Inl err \<Longrightarrow> err = DecodeError"
  by (cases b) simp_all

lemma embedded_assemble:
  "embedded_action_payload (Payload_toBuffer (assemble first es original hdr)) =
     Inr (ChaincodeActionPayload
            (ChaincodeProposalPayload_toBuffer (ChaincodeProposalPayload (input original) []))
            (ChaincodeEndorsedAction (payload first) es))"
  by (simp add: embedded_action_payload_def assemble_def)

section \<open>The paths through build\<close>

lemma store_endorsement:
  assumes "resolved_endorsement this request = Some e"
  shows "(case req_endorsement request of
            Some e \<Rightarrow> this\<lparr>c_endorsement := Some e\<rparr>
          | None \<Rightarrow> this) = this\<lparr>c_endorsement := Some e\<rparr>"
  using assms by (cases "req_endorsement request") (simp_all add: resolved_endorsement_def)

text \<open>
  With an identity context and an endorsement at hand, \<^verbatim>\<open>build\<close> is decided by the
  responses alone.
\<close>

lemma build_resolved:
  assumes "resolved_endorsement this request = Some e"
  shows "build this (Some idc) request =
     (case proposalResponses e of
        None \<Rightarrow> (Inl NotEndorsedError, this\<lparr>c_endorsement := Some e\<rparr>)
      | Some rs \<Rightarrow>
          if collect_endorsements rs = []
          then (Inl NoValidEndorsementsError, reset (this\<lparr>c_endorsement := Some e\<rparr>))
          else (case rs of
                  [] \<Rightarrow> (Inl TypeError, reset (this\<lparr>c_endorsement := Some e\<rparr>))
                | None # _ \<Rightarrow> (Inl TypeError, reset (this\<lparr>c_endorsement := Some e\<rparr>))
                | Some first # _ \<Rightarrow>
                    (case ChaincodeProposalPayload_decode (proposal_payload (endorsement_action e)) of
                       Inl err \<Rightarrow> (Inl err, reset (this\<lparr>c_endorsement := Some e\<rparr>))
                     | Inr original \<Rightarrow>
                         (Inr (Payload_toBuffer
                                (assemble first (collect_endorsements rs) original
                                   (header (endorsement_action e)))),
                          (reset (this\<lparr>c_endorsement := Some e\<rparr>))
                            \<lparr>c_action_payload :=
                               Some (assemble first (collect_endorsements rs) original
                                       (header (endorsement_action e))),
                             c_payload :=
                               Some (Payload_toBuffer
                                      (assemble first (collect_endorsements rs) original
                                         (header (endorsement_action e))))\<rparr>))))"
  unfolding build_def option.case Let_def store_endorsement [OF assms]
  by (simp split: option.splits list.splits sum.splits)

lemma build_Inr_idContext:
  assumes "build this idContext request = (Inr bytes, this')"
  obtains idc where "idContext = Some idc"
  using assms by (cases idContext) (simp_all add: build_def)

text \<open>What a successful \<^verbatim>\<open>build\<close> tells about its endorsement and about its result.\<close>

lemma build_Inr:
  assumes "build this idContext request = (Inr bytes, this')"
    and "resolved_endorsement this request = Some e"
  obtains first rest original where
    "proposalResponses e = Some (Some first # rest)"
    "ChaincodeProposalPayload_decode (proposal_payload (endorsement_action e)) = Inr original"
    "bytes = Payload_toBuffer
               (assemble first (collect_endorsements (Some first # rest)) original
                  (header (endorsement_action e)))"
proof -
  from assms(1) obtain idc where "idContext = Some idc" by (rule build_Inr_idContext)
  with assms(1) have "build this (Some idc) request = (Inr bytes, this')" by simp
  then show thesis
    unfolding build_resolved [OF assms(2)]
    by (auto split: option.splits list.splits sum.splits if_splits intro: that)
qed

lemma sample_resolved:
  "resolved_endorsement this (sample_request rs) = Some (sample_endorsement rs)"
  by (simp add: resolved_endorsement_def sample_request_def)

lemma sample_responses: "proposalResponses (sample_endorsement rs) = rs"
  by (simp add: sample_endorsement_def)

lemma sample_decode:
  "ChaincodeProposalPayload_decode (proposal_payload (endorsement_action (sample_endorsement rs))) =
     Inr (ChaincodeProposalPayload (Bytes [5, 6, 7]) [(''secret'', Bytes [8, 9])])"
  by (simp add: sample_endorsement_def sample_action_def sample_proposal_payload_def)

section \<open>The paths through the broadcast loop\<close>

text \<open>When every committer returns a failure, the loop calls them all and the last one wins.\<close>

lemma broadcast_all_fail:
  assumes "\<forall>c\<in>set cs. \<exists>r. sb c env t = Inr r \<and> status r \<noteq> ''SUCCESS''"
  shows "broadcast sb env t cs bad = (if cs = [] then Inr bad else sb (last cs) env t, cs)"
  using assms
proof (induction cs arbitrary: bad)
  case Nil
  show ?case by simp
next
  case (Cons c cs)
  from Cons.prems obtain r where r: "sb c env t = Inr r" "status r \<noteq> ''SUCCESS''"
    by auto
  from Cons.prems have rest: "\<forall>c\<in>set cs. \<exists>r. sb c env t = Inr r \<and> status r \<noteq> ''SUCCESS''"
    by simp
  show ?case
    using r by (simp add: Cons.IH [OF rest])
qed

text \<open>
  The loop ends at the first committer that raises or accepts, with the answer of that
  committer, and calls nobody after it.
\<close>

lemma broadcast_stop:
  assumes "\<forall>p\<in>set pre. \<exists>r. sb p env t = Inr r \<and> status r \<noteq> ''SUCCESS''"
    and "sb c env t = Inl err \<or> (\<exists>r. sb c env t = Inr r \<and> status r = ''SUCCESS'')"
  shows "broadcast sb env t (pre @ c # post) bad = (sb c env t, pre @ [c])"
  using assms(1)
proof (induction pre arbitrary: bad)
  case Nil
  from assms(2) show ?case by auto
next
  case (Cons p pre)
  from Cons.prems obtain r where r: "sb p env t = Inr r" "status r \<noteq> ''SUCCESS''"
    by auto
  from Cons.prems have rest: "\<forall>p\<in>set pre. \<exists>r. sb p env t = Inr r \<and> status r \<noteq> ''SUCCESS''"
    by simp
  show ?case
    using r by (simp add: Cons.IH [OF rest])
qed

text \<open>The loop raises exactly when a committer raises before any committer has accepted.\<close>

lemma broadcast_Inl_iff:
  "fst (broadcast sb env t cs bad) = Inl err \<longleftrightarrow>
     (\<exists>pre c post. cs = pre @ c # post
        \<and> (\<forall>p\<in>set pre. \<exists>r. sb p env t = Inr r \<and> status r \<noteq> ''SUCCESS'')
        \<and> sb c env t = Inl err)"
proof
  assume "fst (broadcast sb env t cs bad) = Inl err"
  then show "\<exists>pre c post. cs = pre @ c # post
        \<and> (\<forall>p\<in>set pre. \<exists>r. sb p env t = Inr r \<and> status r \<noteq> ''SUCCESS'')
        \<and> sb c env t = Inl err"
  proof (induction cs arbitrary: bad)
    case Nil
    then show ?case by simp
  next
    case (Cons c cs)
    show ?case
    proof (cases "sb c env t")
      case (Inl e)
      with Cons.prems have "e = err" by simp
      with Inl have "c # cs = [] @ c # cs
          \<and> (\<forall>p\<in>set []. \<exists>r. sb p env t = Inr r \<and> status r \<noteq> ''SUCCESS'')
          \<and> sb c env t = Inl err"
        by simp
      then show ?thesis by blast
    next
      case (Inr r)
      show ?thesis
      proof (cases "status r = ''SUCCESS''")
        case True
        with Inr Cons.prems show ?thesis by simp
      next
        case False
        with Inr Cons.prems have "fst (broadcast sb env t cs r) = Inl err"
          by (simp split: prod.splits)
        from Cons.IH [OF this] obtain pre d post where
          "cs = pre @ d # post"
          "\<forall>p\<in>set pre. \<exists>r. sb p env t = Inr r \<and> status r \<noteq> ''SUCCESS''"
          "sb d env t = Inl err"
          by blast
        with Inr False have "c # cs = (c # pre) @ d # post
            \<and> (\<forall>p\<in>set (c # pre). \<exists>r. sb p env t = Inr r \<and> status r \<noteq> ''SUCCESS'')
            \<and> sb d env t = Inl err"
          by simp
        then show ?thesis by blast
      qed
    qed
  qed
next
  assume "\<exists>pre c post. cs = pre @ c # post
        \<and> (\<forall>p\<in>set pre. \<exists>r. sb p env t = Inr r \<and> status r \<noteq> ''SUCCESS'')
        \<and> sb c env t = Inl err"
  then obtain pre c post where "cs = pre @ c # post"
    "\<forall>p\<in>set pre. \<exists>r. sb p env t = Inr r \<and> status r \<noteq> ''SUCCESS''" "sb c env t = Inl err"
    by blast
  then show "fst (broadcast sb env t cs bad) = Inl err"
    by (simp add: broadcast_stop)
qed

lemma send_targets:
  assumes "getSignedEnvelope this = Inr envelope"
    and "handler request = None"
    and "targets request = Some ts"
    and "getTargetCommitters tr ts = Inr cs"
  shows "send tr this request =
     (fst (broadcast (sendBroadcast tr) envelope (requestTimeout request) cs initial_bad_result),
      TargetCommitters ts #
        map SendBroadcast
          (snd (broadcast (sendBroadcast tr) envelope (requestTimeout request) cs
                  initial_bad_result)))"
  using assms by (simp add: send_def split: prod.splits)

lemma sample_signed: "getSignedEnvelope signed_commit = Inr sample_envelope"
  by (simp add: getSignedEnvelope_def signed_commit_def sample_envelope_def)

lemma sample_request_fields:
  "handler (targets_request ts) = None"
  "targets (targets_request ts) = Some ts"
  "requestTimeout (targets_request ts) = Some 3000"
  by (simp_all add: targets_request_def)

lemma sample_committers: "getTargetCommitters sample_transport ts = Inr ts"
  by (simp add: sample_transport_def)

lemma sample_broadcast: "sendBroadcast sample_transport = sample_sendBroadcast"
  by (simp add: sample_transport_def)

section \<open>Building the payload\<close>

text \<open>
  C1. For an endorsement record whose responses are absent, \<^verbatim>\<open>build\<close> fails with
  the error ``Proposal has not been endorsed'', and this is the only way to get that
  error: the guard tests the presence of \<^verbatim>\<open>_proposalResponses\<close>, and an empty array
  is present. A record with an empty array of responses fails with ``No valid endorsements
  found'', the error of a record whose responses are all invalid. The two errors differ.
\<close>

theorem build_not_endorsed_iff_absent:
  assumes "resolved_endorsement this request = Some e"
  shows "(fst (build this (Some idc) request) = Inl NotEndorsedError \<longleftrightarrow> proposalResponses e = None)
       \<and> (proposalResponses e = Some [] \<longrightarrow>
            fst (build this (Some idc) request) = Inl NoValidEndorsementsError)
       \<and> NotEndorsedError \<noteq> NoValidEndorsementsError"
  by (auto simp: build_resolved [OF assms] NotEndorsedError_def NoValidEndorsementsError_def
           dest: decode_error split: option.splits list.splits sum.splits)

theorem build_not_endorsed_iff_absent_witness:
  "fst (build fresh_commit (Some sample_identity) (sample_request None)) = Inl NotEndorsedError
   \<and> fst (build fresh_commit (Some sample_identity) (sample_request (Some []))) =
       Inl NoValidEndorsementsError"
proof -
  have absent: "proposalResponses (sample_endorsement None) = None"
    by (rule sample_responses)
  have empty: "proposalResponses (sample_endorsement (Some [])) = Some []"
    by (rule sample_responses)
  from build_not_endorsed_iff_absent [OF sample_resolved, of fresh_commit sample_identity None] absent
  have 1: "fst (build fresh_commit (Some sample_identity) (sample_request None)) = Inl NotEndorsedError"
    by blast
  from build_not_endorsed_iff_absent [OF sample_resolved, of fresh_commit sample_identity "Some []"] empty
  have 2: "fst (build fresh_commit (Some sample_identity) (sample_request (Some []))) =
       Inl NoValidEndorsementsError"
    by blast
  from 1 2 show ?thesis by (rule conjI)
qed

theorem build_empty_responses_counterexample:
  "proposalResponses (sample_endorsement (Some [])) = Some []
   \<and> fst (build fresh_commit (Some sample_identity) (sample_request (Some []))) =
       Inl NoValidEndorsementsError
   \<and> fst (build fresh_commit (Some sample_identity) (sample_request (Some []))) \<noteq>
       Inl NotEndorsedError"
  by (simp add: build_resolved [OF sample_resolved] sample_responses
        NoValidEndorsementsError_def NotEndorsedError_def)

text \<open>
  C7. For every endorsement record with at least one response whose responses all fail the
  guard of the filter (an entry that is no response, a response without status, or a
  status other than 200), \<^verbatim>\<open>build\<close> fails with ``No valid endorsements found''.
\<close>

theorem build_no_valid_endorsements:
  assumes "resolved_endorsement this request = Some e"
    and "proposalResponses e = Some rs"
    and "rs \<noteq> []"
    and "\<forall>r\<in>set rs. \<not> is_valid_endorsement r"
  shows "fst (build this (Some idc) request) = Inl NoValidEndorsementsError"
  using assms(2,4) by (simp add: build_resolved [OF assms(1)] collect_endorsements_Nil_iff)

theorem build_no_valid_endorsements_witness:
  "fst (build fresh_commit (Some sample_identity)
          (sample_request (Some [Some (response_with 500 1), Some (response_with 404 2)]))) =
     Inl NoValidEndorsementsError"
proof -
  let ?rs = "[Some (response_with 500 1), Some (response_with 404 2)]"
  have nonempty: "?rs \<noteq> []" by simp
  have invalid: "\<forall>r\<in>set ?rs. \<not> is_valid_endorsement r"
    by (simp add: response_with_def)
  show ?thesis
    by (rule build_no_valid_endorsements [OF sample_resolved sample_responses nonempty invalid])
qed

text \<open>
  C10. The reset runs before the filter: when \<^verbatim>\<open>build\<close> fails because no response
  has status 200, the object is left as the reset leaves it, with no payload message, no
  payload bytes and no signature, whatever it had accumulated before.
\<close>

theorem build_failure_discards_state:
  assumes "resolved_endorsement this request = Some e"
    and "proposalResponses e = Some rs"
    and "\<forall>r\<in>set rs. \<not> is_valid_endorsement r"
  shows "fst (build this (Some idc) request) = Inl NoValidEndorsementsError
       \<and> snd (build this (Some idc) request) = reset (this\<lparr>c_endorsement := Some e\<rparr>)
       \<and> unbuilt (snd (build this (Some idc) request))"
  using assms(2,3)
  by (simp add: build_resolved [OF assms(1)] collect_endorsements_Nil_iff reset_def unbuilt_def)

theorem build_failure_discards_state_witness:
  "\<not> unbuilt signed_commit
   \<and> unbuilt (snd (build signed_commit (Some sample_identity)
                    (sample_request (Some [Some (response_with 500 1)]))))"
proof -
  let ?rs = "[Some (response_with 500 1)]"
  have before: "\<not> unbuilt signed_commit"
    by (simp add: unbuilt_def signed_commit_def)
  have invalid: "\<forall>r\<in>set ?rs. \<not> is_valid_endorsement r"
    by (simp add: response_with_def)
  from build_failure_discards_state [OF sample_resolved sample_responses invalid]
  have "unbuilt (snd (build signed_commit (Some sample_identity) (sample_request (Some ?rs))))"
    by blast
  with before show ?thesis by (rule conjI)
qed

text \<open>
  C8. For every endorsement record that \<^verbatim>\<open>build\<close> accepts, the endorsements inside
  the payload it returns are exactly the endorsements of the responses with status 200,
  in the order of the responses. With two responses of status 200 and 500 the list has
  one element, the endorsement of the first.
\<close>

theorem build_filters_endorsements:
  assumes "build this idContext request = (Inr bytes, this')"
    and "resolved_endorsement this request = Some e"
    and "proposalResponses e = Some rs"
  shows "\<exists>cap. embedded_action_payload bytes = Inr cap
             \<and> getEndorsements (getAction cap) =
                 map (endorsement \<circ> the) (filter is_valid_endorsement rs)"
proof -
  from assms(1,2) obtain first rest original where
    rs: "proposalResponses e = Some (Some first # rest)" and
    bytes: "bytes = Payload_toBuffer
               (assemble first (collect_endorsements (Some first # rest)) original
                  (header (endorsement_action e)))"
    by (rule build_Inr)
  from rs assms(3) have "rs = Some first # rest" by simp
  then show ?thesis
    unfolding bytes embedded_assemble by (simp add: collect_endorsements_filter)
qed

theorem build_filters_endorsements_witness:
  "getEndorsements (getAction (projr (embedded_action_payload (projr (fst
      (build fresh_commit (Some sample_identity)
         (sample_request (Some [Some (response_with 200 1), Some (response_with 500 2)])))))))) =
     [endorsement (response_with 200 1)]
   \<and> length [endorsement (response_with 200 1)] = 1"
proof -
  let ?rs = "[Some (response_with 200 1), Some (response_with 500 2)]"
  let ?b = "build fresh_commit (Some sample_identity) (sample_request (Some ?rs))"
  have built: "?b = (Inr (projr (fst ?b)), snd ?b)"
    by (simp add: build_resolved [OF sample_resolved] sample_responses sample_decode
          response_with_def)
  from build_filters_endorsements [OF built sample_resolved sample_responses]
  obtain cap where "embedded_action_payload (projr (fst ?b)) = Inr cap"
    and "getEndorsements (getAction cap) = map (endorsement \<circ> the) (filter is_valid_endorsement ?rs)"
    by blast
  then have "getEndorsements (getAction (projr (embedded_action_payload (projr (fst ?b))))) =
      [endorsement (response_with 200 1)]"
    by (simp add: response_with_def)
  then show ?thesis by simp
qed

text \<open>
  C6. For every endorsement record that \<^verbatim>\<open>build\<close> accepts, the chaincode proposal
  payload inside the payload it returns is the original proposal payload, decoded and
  encoded again with its input only: its transient map is empty.
\<close>

theorem build_strips_transient_map:
  assumes "build this idContext request = (Inr bytes, this')"
    and "resolved_endorsement this request = Some e"
  shows "\<exists>original cap.
           ChaincodeProposalPayload_decode (proposal_payload (endorsement_action e)) = Inr original
         \<and> embedded_action_payload bytes = Inr cap
         \<and> ChaincodeProposalPayload_decode (getChaincodeProposalPayload cap) =
             Inr (ChaincodeProposalPayload (input original) [])"
proof -
  from assms obtain first rest original where
    dec: "ChaincodeProposalPayload_decode (proposal_payload (endorsement_action e)) = Inr original" and
    bytes: "bytes = Payload_toBuffer
               (assemble first (collect_endorsements (Some first # rest)) original
                  (header (endorsement_action e)))"
    by (rule build_Inr)
  show ?thesis
    unfolding bytes embedded_assemble using dec by simp
qed

theorem build_strips_transient_map_witness:
  "TransientMap (projr (ChaincodeProposalPayload_decode sample_proposal_payload)) =
     [(''secret'', Bytes [8, 9])]
   \<and> ChaincodeProposalPayload_decode (getChaincodeProposalPayload
        (projr (embedded_action_payload (projr (fst
           (build fresh_commit (Some sample_identity)
              (sample_request (Some [Some (response_with 200 1)])))))))) =
     Inr (ChaincodeProposalPayload (Bytes [5, 6, 7]) [])"
proof -
  let ?rs = "[Some (response_with 200 1)]"
  let ?b = "build fresh_commit (Some sample_identity) (sample_request (Some ?rs))"
  have built: "?b = (Inr (projr (fst ?b)), snd ?b)"
    by (simp add: build_resolved [OF sample_resolved] sample_responses sample_decode
          response_with_def)
  have before: "TransientMap (projr (ChaincodeProposalPayload_decode sample_proposal_payload)) =
     [(''secret'', Bytes [8, 9])]"
    by (simp add: sample_proposal_payload_def)
  from build_strips_transient_map [OF built sample_resolved]
  obtain original cap where
    "ChaincodeProposalPayload_decode
       (proposal_payload (endorsement_action (sample_endorsement (Some ?rs)))) = Inr original"
    "embedded_action_payload (projr (fst ?b)) = Inr cap"
    "ChaincodeProposalPayload_decode (getChaincodeProposalPayload cap) =
       Inr (ChaincodeProposalPayload (input original) [])"
    by blast
  then have "ChaincodeProposalPayload_decode (getChaincodeProposalPayload
        (projr (embedded_action_payload (projr (fst ?b))))) =
     Inr (ChaincodeProposalPayload (Bytes [5, 6, 7]) [])"
    by (auto simp: sample_decode)
  with before show ?thesis by (rule conjI)
qed

text \<open>
  C5. For every endorsement record with a response of status 200, \<^verbatim>\<open>build\<close> takes
  the proposal response payload from the first response in arrival order, whatever the
  status of that one, and the header from the proposal action the record keeps for all
  its responses. The result nests, from the inside: the endorsed action (that payload and
  the filtered endorsements), the chaincode action payload (the endorsed action and the
  trimmed proposal payload), the transaction action under the signature header of the
  original header, the transaction with this single action, and the payload with the
  original header and the bytes of the transaction. The first entry of the array has to
  be a response object and the proposal payload of the record has to decode.
\<close>

theorem build_assembles_payload:
  assumes "resolved_endorsement this request = Some e"
    and "proposalResponses e = Some (Some first # rest)"
    and "\<exists>r\<in>set (Some first # rest). is_valid_endorsement r"
    and "ChaincodeProposalPayload_decode (proposal_payload (endorsement_action e)) = Inr original"
  shows "fst (build this (Some idc) request) =
     Inr (Payload_toBuffer
           (Payload (header (endorsement_action e))
             (Transaction_toBuffer
               (Transaction
                 [TransactionAction (signature_header (header (endorsement_action e)))
                   (ChaincodeActionPayload_toBuffer
                     (ChaincodeActionPayload
                       (ChaincodeProposalPayload_toBuffer
                         (ChaincodeProposalPayload (input original) []))
                       (ChaincodeEndorsedAction (payload first)
                         (map (endorsement \<circ> the)
                            (filter is_valid_endorsement (Some first # rest))))))]))))"
proof -
  from assms(3) have "collect_endorsements (Some first # rest) \<noteq> []"
    unfolding collect_endorsements_Nil_iff by blast
  then show ?thesis
    unfolding build_resolved [OF assms(1)] 
    by (simp add: assms(2,4) assemble_def getSignatureHeader_def collect_endorsements_filter)
qed

theorem build_assembles_payload_witness:
  "fst (build fresh_commit (Some sample_identity)
          (sample_request (Some [Some (response_with 500 1), Some (response_with 200 2)]))) =
     Inr (Payload_toBuffer
           (Payload (Header (Bytes [1, 2]) (Bytes [3, 4]))
             (Transaction_toBuffer
               (Transaction
                 [TransactionAction (Bytes [3, 4])
                   (ChaincodeActionPayload_toBuffer
                     (ChaincodeActionPayload
                       (ChaincodeProposalPayload_toBuffer
                         (ChaincodeProposalPayload (Bytes [5, 6, 7]) []))
                       (ChaincodeEndorsedAction (Bytes [1])
                         [Endorsement (Bytes [2, 0]) (Bytes [2, 1])])))]))))"
proof -
  let ?first = "response_with 500 1"
  let ?rest = "[Some (response_with 200 2)]"
  have valid: "\<exists>r\<in>set (Some ?first # ?rest). is_valid_endorsement r"
    by (simp add: response_with_def)
  from build_assembles_payload [OF sample_resolved sample_responses valid sample_decode,
      of fresh_commit sample_identity]
  show ?thesis
    by (simp add: response_with_def sample_endorsement_def sample_action_def sample_header_def)
qed

section \<open>Sending the envelope\<close>

text \<open>
  C9. For every request with neither a handler nor targets, \<^verbatim>\<open>send\<close> fails and
  asks nothing of the channel, of a committer or of a handler. On an action that holds a
  signed envelope, which \<^verbatim>\<open>send\<close> fetches before it looks at the request, the
  failure is ``Missing targets parameter''.
\<close>

theorem send_missing_targets:
  assumes "handler request = None"
    and "targets request = None"
  shows "snd (send tr this request) = []
       \<and> (\<exists>err. fst (send tr this request) = Inl err)
       \<and> (getSignedEnvelope this = Inr envelope \<longrightarrow>
            fst (send tr this request) = Inl (MissingParameterError ''targets''))"
  using assms by (cases "getSignedEnvelope this") (simp_all add: send_def MissingParameterError_def)

theorem send_missing_targets_witness:
  "send sample_transport signed_commit
     \<lparr>handler = None, targets = None, requestTimeout = None\<rparr> =
     (Inl (Error ''Missing targets parameter''), [])"
proof -
  let ?request = "\<lparr>handler = None, targets = None, requestTimeout = None\<rparr> :: (unit, string) sendRequest"
  have no_handler: "handler ?request = None" by simp
  have no_targets: "targets ?request = None" by simp
  from send_missing_targets [OF no_handler no_targets, of sample_transport signed_commit
      sample_envelope] sample_signed
  have "fst (send sample_transport signed_commit ?request) = Inl (MissingParameterError ''targets'')"
    and "snd (send sample_transport signed_commit ?request) = []"
    by blast+
  then show ?thesis by (simp add: MissingParameterError_def prod_eq_iff)
qed

text \<open>
  C4. When the committers resolved from the targets are \<open>pre @ tk # post\<close>, every
  committer of \<open>pre\<close> returns an outcome other than SUCCESS and \<open>tk\<close> returns
  SUCCESS, \<^verbatim>\<open>send\<close> returns the outcome of \<open>tk\<close>, after calling the committers
  of \<open>pre\<close> and then \<open>tk\<close> in the order of the list, and none of \<open>post\<close>. That
  the committers of \<open>pre\<close> return is needed: when one of them raises, \<^verbatim>\<open>send\<close>
  fails before \<open>tk\<close> is called.
\<close>

theorem send_first_success:
  assumes "getSignedEnvelope this = Inr envelope"
    and "handler request = None"
    and "targets request = Some ts"
    and "getTargetCommitters tr ts = Inr (pre @ tk # post)"
    and "\<forall>c\<in>set pre. \<exists>r. sendBroadcast tr c envelope (requestTimeout request) = Inr r
                          \<and> status r \<noteq> ''SUCCESS''"
    and "sendBroadcast tr tk envelope (requestTimeout request) = Inr result"
    and "status result = ''SUCCESS''"
  shows "send tr this request =
           (Inr result, TargetCommitters ts # map SendBroadcast (pre @ [tk]))"
proof -
  have "broadcast (sendBroadcast tr) envelope (requestTimeout request) (pre @ tk # post)
          initial_bad_result = (Inr result, pre @ [tk])"
    using broadcast_stop [where sb = "sendBroadcast tr" and env = envelope
        and t = "requestTimeout request" and c = tk, OF assms(5)] assms(6,7)
    by simp
  then show ?thesis
    unfolding send_targets [OF assms(1-4)] by simp
qed

theorem send_first_success_witness:
  "send sample_transport signed_commit (targets_request [''a'', ''b'', ''up'', ''c'']) =
     (Inr \<lparr>status = ''SUCCESS'', info = Some []\<rparr>,
      [TargetCommitters [''a'', ''b'', ''up'', ''c''],
       SendBroadcast ''a'', SendBroadcast ''b'', SendBroadcast ''up''])"
proof -
  let ?req = "targets_request [''a'', ''b'', ''up'', ''c'']"
  have resolved: "getTargetCommitters sample_transport [''a'', ''b'', ''up'', ''c''] =
      Inr ([''a'', ''b''] @ ''up'' # [''c''])"
    by (simp add: sample_committers)
  have failures: "\<forall>c\<in>set [''a'', ''b''].
      \<exists>r. sendBroadcast sample_transport c sample_envelope (requestTimeout ?req) = Inr r
          \<and> status r \<noteq> ''SUCCESS''"
    by (simp add: sample_broadcast sample_sendBroadcast_def)
  have success: "sendBroadcast sample_transport ''up'' sample_envelope (requestTimeout ?req) =
      Inr \<lparr>status = ''SUCCESS'', info = Some []\<rparr>"
    by (simp add: sample_broadcast sample_sendBroadcast_def)
  have accepted: "status \<lparr>status = ''SUCCESS'', info = Some []\<rparr> = ''SUCCESS''"
    by simp
  from send_first_success [OF sample_signed sample_request_fields(1,2) resolved failures
      success accepted]
  show ?thesis by simp
qed

theorem send_first_success_counterexample:
  "sendBroadcast sample_transport ''down'' sample_envelope (Some 3000) =
     Inl (TransportError ''REQUEST TIMEOUT'')
   \<and> sendBroadcast sample_transport ''up'' sample_envelope (Some 3000) =
     Inr \<lparr>status = ''SUCCESS'', info = Some []\<rparr>
   \<and> send sample_transport signed_commit (targets_request [''down'', ''up'']) =
     (Inl (TransportError ''REQUEST TIMEOUT''),
      [TargetCommitters [''down'', ''up''], SendBroadcast ''down''])"
  by (simp add: send_targets [OF sample_signed sample_request_fields(1,2) sample_committers]
        sample_request_fields sample_broadcast sample_sendBroadcast_def)

text \<open>
  C2. When every committer resolved from the targets returns an outcome other than
  SUCCESS, \<^verbatim>\<open>send\<close> calls them all in the order of the list and returns the outcome
  of the last one; for an empty list it returns the initial outcome, of status UNKNOWN.
  A returned status UNKNOWN therefore means that the list is empty or that the last
  committer reported UNKNOWN itself.
\<close>

theorem send_last_failure_wins:
  assumes "getSignedEnvelope this = Inr envelope"
    and "handler request = None"
    and "targets request = Some ts"
    and "getTargetCommitters tr ts = Inr cs"
    and "\<forall>c\<in>set cs. \<exists>r. sendBroadcast tr c envelope (requestTimeout request) = Inr r
                          \<and> status r \<noteq> ''SUCCESS''"
  shows "send tr this request =
           (if cs = [] then Inr \<lparr>status = ''UNKNOWN'', info = None\<rparr>
            else sendBroadcast tr (last cs) envelope (requestTimeout request),
            TargetCommitters ts # map SendBroadcast cs)
       \<and> (\<forall>r. fst (send tr this request) = Inr r \<and> status r = ''UNKNOWN'' \<longrightarrow>
              cs = [] \<or> sendBroadcast tr (last cs) envelope (requestTimeout request) = Inr r)"
proof -
  have eq: "send tr this request =
           (if cs = [] then Inr \<lparr>status = ''UNKNOWN'', info = None\<rparr>
            else sendBroadcast tr (last cs) envelope (requestTimeout request),
            TargetCommitters ts # map SendBroadcast cs)"
    unfolding send_targets [OF assms(1-4)]
      broadcast_all_fail [where sb = "sendBroadcast tr" and env = envelope
        and t = "requestTimeout request", OF assms(5)]
    by (simp add: initial_bad_result_def)
  have "cs = [] \<or> sendBroadcast tr (last cs) envelope (requestTimeout request) = Inr r"
    if "fst (send tr this request) = Inr r" for r
  proof (cases "cs = []")
    case True
    then show ?thesis by (rule disjI1)
  next
    case False
    with that eq have "sendBroadcast tr (last cs) envelope (requestTimeout request) = Inr r"
      by simp
    then show ?thesis by (rule disjI2)
  qed
  with eq show ?thesis by blast
qed

theorem send_last_failure_wins_witness:
  "send sample_transport signed_commit (targets_request [''m1'', ''m2'', ''m3'']) =
     (Inr \<lparr>status = ''FAILED'', info = Some ''m3''\<rparr>,
      [TargetCommitters [''m1'', ''m2'', ''m3''],
       SendBroadcast ''m1'', SendBroadcast ''m2'', SendBroadcast ''m3''])
   \<and> send sample_transport signed_commit (targets_request []) =
     (Inr \<lparr>status = ''UNKNOWN'', info = None\<rparr>, [TargetCommitters []])"
proof -
  let ?cs = "[''m1'', ''m2'', ''m3'']"
  have failures: "\<forall>c\<in>set ?cs.
      \<exists>r. sendBroadcast sample_transport c sample_envelope (requestTimeout (targets_request ?cs)) = Inr r
          \<and> status r \<noteq> ''SUCCESS''"
    by (simp add: sample_broadcast sample_sendBroadcast_def)
  have none: "\<forall>c\<in>set ([] :: string list).
      \<exists>r. sendBroadcast sample_transport c sample_envelope (requestTimeout (targets_request [])) = Inr r
          \<and> status r \<noteq> ''SUCCESS''"
    by simp
  from send_last_failure_wins [OF sample_signed sample_request_fields(1,2) sample_committers
      failures, THEN conjunct1]
  have three: "send sample_transport signed_commit (targets_request ?cs) =
     (Inr \<lparr>status = ''FAILED'', info = Some ''m3''\<rparr>,
      [TargetCommitters ?cs, SendBroadcast ''m1'', SendBroadcast ''m2'', SendBroadcast ''m3''])"
    by (simp add: sample_broadcast sample_sendBroadcast_def)
  from send_last_failure_wins [OF sample_signed sample_request_fields(1,2) sample_committers
      none, THEN conjunct1]
  have zero: "send sample_transport signed_commit (targets_request []) =
     (Inr \<lparr>status = ''UNKNOWN'', info = None\<rparr>, [TargetCommitters []])"
    by simp
  from three zero show ?thesis by (rule conjI)
qed

theorem send_unknown_status_counterexample:
  "getTargetCommitters sample_transport [''unknown''] = Inr [''unknown'']
   \<and> [''unknown''] \<noteq> []
   \<and> fst (send sample_transport signed_commit (targets_request [''unknown''])) =
       Inr \<lparr>status = ''UNKNOWN'', info = Some ''no status''\<rparr>
   \<and> status \<lparr>status = ''UNKNOWN'', info = Some ''no status''\<rparr> = ''UNKNOWN''"
  by (simp add: send_targets [OF sample_signed sample_request_fields(1,2) sample_committers]
        sample_committers sample_broadcast sample_sendBroadcast_def)

text \<open>
  C3. Nothing catches what \<^verbatim>\<open>sendBroadcast\<close> raises. With a signed envelope, no
  handler and targets that resolve, \<^verbatim>\<open>send\<close> fails with an error exactly when some
  committer raises that error after all committers before it have returned an outcome
  other than SUCCESS. Whenever a committer raises in that position, \<^verbatim>\<open>send\<close> fails
  with its error, having called the committers up to and including that one and none
  after it. A committer that returns an outcome other than SUCCESS never makes
  \<^verbatim>\<open>send\<close> raise.
\<close>

theorem send_raises_iff_committer_raises:
  assumes "getSignedEnvelope this = Inr envelope"
    and "handler request = None"
    and "targets request = Some ts"
    and "getTargetCommitters tr ts = Inr cs"
  shows "(fst (send tr this request) = Inl err \<longleftrightarrow>
           (\<exists>pre c post. cs = pre @ c # post
              \<and> (\<forall>p\<in>set pre. \<exists>r. sendBroadcast tr p envelope (requestTimeout request) = Inr r
                                  \<and> status r \<noteq> ''SUCCESS'')
              \<and> sendBroadcast tr c envelope (requestTimeout request) = Inl err))
       \<and> (\<forall>pre c post.
             cs = pre @ c # post
             \<and> (\<forall>p\<in>set pre. \<exists>r. sendBroadcast tr p envelope (requestTimeout request) = Inr r
                                 \<and> status r \<noteq> ''SUCCESS'')
             \<and> sendBroadcast tr c envelope (requestTimeout request) = Inl err
             \<longrightarrow> send tr this request =
                   (Inl err, TargetCommitters ts # map SendBroadcast (pre @ [c])))"
proof (rule conjI)
  show "fst (send tr this request) = Inl err \<longleftrightarrow>
           (\<exists>pre c post. cs = pre @ c # post
              \<and> (\<forall>p\<in>set pre. \<exists>r. sendBroadcast tr p envelope (requestTimeout request) = Inr r
                                  \<and> status r \<noteq> ''SUCCESS'')
              \<and> sendBroadcast tr c envelope (requestTimeout request) = Inl err)"
    unfolding send_targets [OF assms] fst_conv by (rule broadcast_Inl_iff)
next
  let ?sb = "sendBroadcast tr"
  let ?t = "requestTimeout request"
  have "send tr this request = (Inl err, TargetCommitters ts # map SendBroadcast (pre @ [c]))"
    if cs: "cs = pre @ c # post"
      and pre: "\<forall>p\<in>set pre. \<exists>r. ?sb p envelope ?t = Inr r \<and> status r \<noteq> ''SUCCESS''"
      and c: "?sb c envelope ?t = Inl err"
    for pre c post
  proof -
    from c have "?sb c envelope ?t = Inl err
        \<or> (\<exists>r. ?sb c envelope ?t = Inr r \<and> status r = ''SUCCESS'')"
      by (rule disjI1)
    with pre have "broadcast ?sb envelope ?t (pre @ c # post) initial_bad_result =
        (?sb c envelope ?t, pre @ [c])"
      by (rule broadcast_stop)
    with c cs show ?thesis
      unfolding send_targets [OF assms] by simp
  qed
  then show "\<forall>pre c post.
             cs = pre @ c # post
             \<and> (\<forall>p\<in>set pre. \<exists>r. ?sb p envelope ?t = Inr r \<and> status r \<noteq> ''SUCCESS'')
             \<and> ?sb c envelope ?t = Inl err
             \<longrightarrow> send tr this request =
                   (Inl err, TargetCommitters ts # map SendBroadcast (pre @ [c]))"
    by blast
qed

theorem send_raises_iff_committer_raises_witness:
  "sendBroadcast sample_transport ''down'' sample_envelope (Some 3000) =
     Inl (TransportError ''REQUEST TIMEOUT'')
   \<and> send sample_transport signed_commit (targets_request [''a'', ''b'', ''down'', ''up'']) =
     (Inl (TransportError ''REQUEST TIMEOUT''),
      [TargetCommitters [''a'', ''b'', ''down'', ''up''],
       SendBroadcast ''a'', SendBroadcast ''b'', SendBroadcast ''down''])"
proof -
  let ?ts = "[''a'', ''b'', ''down'', ''up'']"
  let ?req = "targets_request ?ts"
  let ?err = "TransportError ''REQUEST TIMEOUT''"
  have down: "sendBroadcast sample_transport ''down'' sample_envelope (Some 3000) = Inl ?err"
    by (simp add: sample_broadcast sample_sendBroadcast_def)
  have split: "?ts = [''a'', ''b''] @ ''down'' # [''up'']"
    by simp
  have failures: "\<forall>p\<in>set [''a'', ''b''].
      \<exists>r. sendBroadcast sample_transport p sample_envelope (requestTimeout ?req) = Inr r
          \<and> status r \<noteq> ''SUCCESS''"
    by (simp add: sample_broadcast sample_sendBroadcast_def)
  have raises: "sendBroadcast sample_transport ''down'' sample_envelope (requestTimeout ?req) =
      Inl ?err"
    by (simp add: sample_broadcast sample_sendBroadcast_def)
  from send_raises_iff_committer_raises [OF sample_signed sample_request_fields(1,2)
      sample_committers, of ?ts ?err, THEN conjunct2] split failures raises
  have "send sample_transport signed_commit ?req =
      (Inl ?err, TargetCommitters ?ts # map SendBroadcast ([''a'', ''b''] @ [''down'']))"
    by blast
  then have "send sample_transport signed_commit ?req =
      (Inl ?err, [TargetCommitters ?ts, SendBroadcast ''a'', SendBroadcast ''b'',
                  SendBroadcast ''down''])"
    by simp
  with down show ?thesis by (rule conjI)
qed

theorem send_transport_error_counterexample:
  "targets (targets_request [''a'', ''down'', ''up'']) = Some [''a'', ''down'', ''up'']
   \<and> send sample_transport signed_commit (targets_request [''a'', ''down'', ''up'']) =
     (Inl (TransportError ''REQUEST TIMEOUT''),
      [TargetCommitters [''a'', ''down'', ''up''], SendBroadcast ''a'', SendBroadcast ''down''])"
  by (simp add: send_targets [OF sample_signed sample_request_fields(1,2) sample_committers]
        sample_request_fields sample_broadcast sample_sendBroadcast_def)

end
